theory Spec2Isabelle
  imports Complex_Main "HOL-Library.Product_Lexorder" "HOL-Library.Multiset"
begin

section \<open>Values shared by the two scripts\<close>

text \<open>
  The repository holds two scripts: \<^verbatim>\<open>ativdade01.py\<close> (class
  \<^verbatim>\<open>ModeloRegressaoLinear\<close>, a least-squares fit) and \<^verbatim>\<open>atividade02.py\<close> (class
  \<^verbatim>\<open>ConsultadorDolarPTAX\<close>, a monthly exchange-rate lookup). Every method is modelled as
  a function that takes the object and the outside world and returns an outcome, the
  object and the world. An outcome is \<open>Inl e\<close> when the method raises \<open>e\<close> and
  \<open>Inr v\<close> when it returns \<open>v\<close>; Python's \<^verbatim>\<open>None\<close> is the \<open>None\<close> of an option type.
\<close>

datatype erro = ValueError | TypeError | LinAlgError | IllegalMonthError | FileNotFoundError

text \<open>
  A \<^verbatim>\<open>float64\<close> is modelled as a real number and its arithmetic as exact arithmetic:
  rounding is outside the model. The values a division by zero produces under numpy
  (\<^verbatim>\<open>inf\<close>, \<^verbatim>\<open>-inf\<close>, \<^verbatim>\<open>nan\<close>, with a warning and no exception) are kept.
\<close>

datatype npfloat = Finite real | PosInf | NegInf | NaN

text \<open>A calendar date is (year, month, day); Python compares dates in that order.\<close>

type_synonym date = "nat \<times> nat \<times> nat"

text \<open>What the scripts print, one constructor per \<^verbatim>\<open>print\<close> call (formatting left out).\<close>

datatype saida =
    Buscando string
  | NenhumaCotacao string
  | RegistrosObtidos nat
  | DiasPreenchidos int
  | TempoEsgotado
  | ErroRequisicao
  | SemDadosParaGrafico
  | GraficoSalvo string
  | FormatoIncorreto
  | Cabecalho
  | Estatisticas
  | Rodape
  | ErroExecucao erro
  | DadosCarregados nat
  | ArquivoNaoEncontrado
  | ErroAoCarregar
  | CarregueOsDadosPrimeiro
  | Treinando
  | ModeloTreinado
  | TreineOModeloPrimeiro
  | Metricas real real npfloat npfloat
  | GerandoVisualizacao
  | VisualizacaoSalva string

record mundo =
  stdout :: "saida list"
  requisicoes :: "string list"
  arquivos :: "string list"

definition imprimir :: "saida \<Rightarrow> mundo \<Rightarrow> mundo" where
  "imprimir s w = w\<lparr>stdout := stdout w @ [s]\<rparr>"

definition mundo_inicial :: mundo where
  "mundo_inicial = \<lparr>stdout = [], requisicoes = [], arquivos = []\<rparr>"


section \<open>atividade02.py: the library calls it makes\<close>

subsection \<open>calendar.monthrange and datetime\<close>

text \<open>
  \<^verbatim>\<open>calendar.isleap\<close>, the table \<^verbatim>\<open>calendar.mdays\<close> and the second component of
  \<^verbatim>\<open>calendar.monthrange(year, month)\<close>, as the standard library defines them.
\<close>

definition isleap :: "nat \<Rightarrow> bool" where
  "isleap year = (year mod 4 = 0 \<and> (year mod 100 \<noteq> 0 \<or> year mod 400 = 0))"

definition mdays :: "nat list" where
  "mdays = [0, 31, 28, 31, 30, 31, 30, 31, 31, 30, 31, 30, 31]"

definition monthrange :: "nat \<Rightarrow> nat \<Rightarrow> erro + nat" where
  "monthrange year month =
     (if 1 \<le> month \<and> month \<le> 12
      then Inr (mdays ! month + (if month = 2 \<and> isleap year then 1 else 0))
      else Inl IllegalMonthError)"

text \<open>
  \<^verbatim>\<open>datetime(year, month, day)\<close>: a \<^verbatim>\<open>ValueError\<close> unless the year is in 1..9999, the month
  in 1..12 and the day in 1..(days of that month).
\<close>

definition py_datetime :: "nat \<Rightarrow> nat \<Rightarrow> nat \<Rightarrow> erro + date" where
  "py_datetime year month day =
     (if 1 \<le> year \<and> year \<le> 9999 \<and> 1 \<le> month \<and> month \<le> 12 \<and> 1 \<le> day \<and>
         day \<le> mdays ! month + (if month = 2 \<and> isleap year then 1 else 0)
      then Inr (year, month, day)
      else Inl ValueError)"

subsection \<open>str.isdigit, int and datetime.strptime with the format %m%Y\<close>

text \<open>
  A Python string is modelled by an Isabelle string, each character one code point
  below 256. Among these, \<^verbatim>\<open>str.isdigit\<close> holds of the ten ASCII digits and of the
  superscripts U+00B2, U+00B3 and U+00B9; the regular expression class \<^verbatim>\<open>\d\<close> and
  \<^verbatim>\<open>int\<close> take the ASCII digits only.
\<close>

definition ascii_digit :: "char \<Rightarrow> bool" where
  "ascii_digit c = (c \<in> set ''0123456789'')"

definition isdigit_char :: "char \<Rightarrow> bool" where
  "isdigit_char c = (ascii_digit c \<or> c \<in> set [CHR 0xB2, CHR 0xB3, CHR 0xB9])"

definition isdigit :: "string \<Rightarrow> bool" where
  "isdigit s = (s \<noteq> [] \<and> list_all isdigit_char s)"

definition digit_val :: "char \<Rightarrow> nat" where
  "digit_val c = of_char c - 48"

definition int_of_digits :: "string \<Rightarrow> nat" where
  "int_of_digits s = foldl (\<lambda>a c. 10 * a + digit_val c) 0 s"

text \<open>
  \<^verbatim>\<open>_strptime\<close> turns the format \<^verbatim>\<open>%m%Y\<close> into the regular expression
  \<^verbatim>\<open>(?P<m>1[0-2]|0[1-9]|[1-9])(?P<Y>\d\d\d\d)\<close>, matches it at the start of the string
  (alternatives left to right, backtracking into the next when the year does not follow),
  raises \<^verbatim>\<open>ValueError\<close> when nothing matches or when text remains after the match, and
  builds the date of day 1, which raises \<^verbatim>\<open>ValueError\<close> for the year 0.
\<close>

definition match_m2 :: "string \<Rightarrow> bool" where
  "match_m2 s = (case s of
       [a, b] \<Rightarrow> (a = CHR ''1'' \<and> b \<in> set ''012'') \<or> (a = CHR ''0'' \<and> b \<in> set ''123456789'')
     | _ \<Rightarrow> False)"

definition match_m1 :: "string \<Rightarrow> bool" where
  "match_m1 s = (case s of [a] \<Rightarrow> a \<in> set ''123456789'' | _ \<Rightarrow> False)"

definition match_Y :: "string \<Rightarrow> bool" where
  "match_Y s = (length s = 4 \<and> list_all ascii_digit s)"

definition strptime_mY :: "string \<Rightarrow> erro + date" where
  "strptime_mY s =
     (let found =
            (if match_m2 (take 2 s) \<and> match_Y (take 4 (drop 2 s))
             then Some (take 2 s, take 4 (drop 2 s), drop 6 s)
             else if match_m1 (take 1 s) \<and> match_Y (take 4 (drop 1 s))
             then Some (take 1 s, take 4 (drop 1 s), drop 5 s)
             else None)
      in case found of
           None \<Rightarrow> Inl ValueError
         | Some (m, y, rest) \<Rightarrow>
             if rest \<noteq> [] then Inl ValueError
             else py_datetime (int_of_digits y) (int_of_digits m) 1)"

subsection \<open>Formatting integers\<close>

text \<open>\<^verbatim>\<open>str\<close> of a natural number, and the format \<^verbatim>\<open>:02d\<close>.\<close>

function str_nat :: "nat \<Rightarrow> string" where
  "str_nat n = (if n < 10 then [''0123456789'' ! n]
                else str_nat (n div 10) @ [''0123456789'' ! (n mod 10)])"
  by pat_completeness auto
termination
  by (relation "measure id") auto

definition fmt_02d :: "nat \<Rightarrow> string" where
  "fmt_02d n = (if n < 10 then CHR ''0'' # str_nat n else str_nat n)"


section \<open>atividade02.py: class ConsultadorDolarPTAX\<close>

text \<open>
  A record of the service's answer is a timestamp (a date and a time of day) and a sell
  rate; the rate is only carried around, so its type is left open, and every record is
  taken to hold one (a JSON \<^verbatim>\<open>null\<close> rate is not modelled). The parsing of the
  timestamp text by \<^verbatim>\<open>pd.to_datetime\<close> is not modelled. A data frame with the columns
  \<^verbatim>\<open>dia\<close> and \<^verbatim>\<open>cotacaoVenda\<close> is the list of its rows; a missing cell (\<^verbatim>\<open>NaN\<close>) is
  \<open>None\<close>.
\<close>

type_synonym timestamp = "date \<times> nat"

type_synonym 'r registro = "timestamp \<times> 'r"

text \<open>
  What \<^verbatim>\<open>requests.get\<close> followed by \<^verbatim>\<open>raise_for_status\<close> and \<^verbatim>\<open>json\<close> gives: a timeout,
  another request failure, or the decoded object, of which only the key \<^verbatim>\<open>value\<close> is
  read (\<open>None\<close> when the key is absent).
\<close>

datatype 'r resposta = Timeout | RequestException | Resposta "'r registro list option"

record 'r consultador =
  periodo :: string
  url_api :: string
  dados_processados :: "(date \<times> 'r option) list option"

definition novo_consultador :: "string \<Rightarrow> 'r consultador" where
  "novo_consultador p =
     \<lparr>periodo = p,
      url_api = ''https://olinda.bcb.gov.br/olinda/servico/PTAX/versao/v1/odata/'',
      dados_processados = None\<rparr>"

definition converter_periodo :: "'r consultador \<Rightarrow> erro + date" where
  "converter_periodo self =
     (case strptime_mY (periodo self) of Inl e \<Rightarrow> Inl ValueError | Inr dt \<Rightarrow> Inr dt)"

definition montar_url_consulta ::
    "'r consultador \<Rightarrow> date \<Rightarrow> erro + (string \<times> nat \<times> nat)" where
  "montar_url_consulta self dt_objeto =
     (case dt_objeto of (year, month, _) \<Rightarrow>
        (let primeiro_dia = 1 in
         (case monthrange year month of
            Inl e \<Rightarrow> Inl e
          | Inr ultimo_dia \<Rightarrow>
              (let dt_inicio = fmt_02d month @ ''-'' @ fmt_02d primeiro_dia @ ''-'' @ str_nat year;
                   dt_fim = fmt_02d month @ ''-'' @ fmt_02d ultimo_dia @ ''-'' @ str_nat year;
                   endpoint = url_api self
                     @ ''CotacaoDolarPeriodo(dataInicial=@dataInicial,''
                     @ ''dataFinalCotacao=@dataFinalCotacao)?''
                     @ ''@dataInicial='' @ [CHR 0x27] @ dt_inicio @ [CHR 0x27]
                     @ ''&@dataFinalCotacao='' @ [CHR 0x27] @ dt_fim @ [CHR 0x27]
                     @ ''&$format=json''
               in Inr (endpoint, primeiro_dia, ultimo_dia)))))"

text \<open>
  Lines 56 to 59 of \<^verbatim>\<open>buscar_cotacoes\<close>: one row per record, the column \<^verbatim>\<open>dia\<close> being the
  date part of the timestamp, sorted by \<^verbatim>\<open>sort_values('dia')\<close>. No row is dropped. Pandas
  leaves the order of rows of one day open (its default sort is not stable); the model
  sorts stably.
\<close>

definition processar_dados_api :: "'r registro list \<Rightarrow> (date \<times> 'r) list" where
  "processar_dados_api valor =
     sort_key fst
       (map (\<lambda>(dataHoraCotacao, cotacaoVenda). (fst dataHoraCotacao, cotacaoVenda)) valor)"

text \<open>
  \<^verbatim>\<open>df_todos_dias.merge(df_original, on='dia', how='left')\<close>: the days in their order;
  a day with rows in \<^verbatim>\<open>df_original\<close> gets one row for each of them, a day with none gets
  one row with a missing rate.
\<close>

definition merge_left :: "date list \<Rightarrow> (date \<times> 'r) list \<Rightarrow> (date \<times> 'r option) list" where
  "merge_left todos_dias df_original =
     concat (map (\<lambda>dia.
        case filter (\<lambda>linha. fst linha = dia) df_original of
          [] \<Rightarrow> [(dia, None)]
        | achadas \<Rightarrow> map (\<lambda>linha. (dia, Some (snd linha))) achadas) todos_dias)"

text \<open>
  \<^verbatim>\<open>fillna(method='ffill', inplace=True)\<close> on the column, as the pandas releases that
  accept \<^verbatim>\<open>method=\<close> do it (the column is filled in the frame): a missing cell takes the
  last value seen above it, if any.
\<close>

fun ffill :: "'r option \<Rightarrow> (date \<times> 'r option) list \<Rightarrow> (date \<times> 'r option) list" where
  "ffill ultimo [] = []"
| "ffill ultimo ((dia, None) # resto) = (dia, ultimo) # ffill ultimo resto"
| "ffill ultimo ((dia, Some v) # resto) = (dia, Some v) # ffill (Some v) resto"

text \<open>
  \<^verbatim>\<open>pd.date_range(start, end, freq='D')\<close> for two dates of one month: the days from the
  first to the second, none when the first is after the second.
\<close>

definition date_range :: "date \<Rightarrow> date \<Rightarrow> date list" where
  "date_range data_inicio data_fim =
     (case data_inicio of (year, month, d1) \<Rightarrow>
      case data_fim of (_, _, d2) \<Rightarrow> map (\<lambda>d. (year, month, d)) [d1..<Suc d2])"

definition preencher_dias_faltantes ::
    "(date \<times> 'r) list \<Rightarrow> date \<Rightarrow> nat \<Rightarrow> nat \<Rightarrow> erro + ((date \<times> 'r option) list \<times> saida list)" where
  "preencher_dias_faltantes df_original dt_ref dia_inicial dia_final =
     (case dt_ref of (year, month, _) \<Rightarrow>
        (case py_datetime year month dia_inicial of
           Inl e \<Rightarrow> Inl e
         | Inr data_inicio \<Rightarrow>
             (case py_datetime year month dia_final of
                Inl e \<Rightarrow> Inl e
              | Inr data_fim \<Rightarrow>
                  (let todos_dias = date_range data_inicio data_fim;
                       df_final = ffill None (merge_left todos_dias df_original);
                       dias_preenchidos =
                         int (length (filter (\<lambda>linha. snd linha \<noteq> None) df_final))
                           - int (length df_original)
                   in Inr (df_final,
                           if dias_preenchidos > 0 then [DiasPreenchidos dias_preenchidos]
                           else [])))))"

definition buscar_cotacoes ::
    "(string \<Rightarrow> 'r resposta) \<Rightarrow> 'r consultador \<Rightarrow> mundo \<Rightarrow>
     (erro + (date \<times> 'r option) list option) \<times> 'r consultador \<times> mundo" where
  "buscar_cotacoes http self w0 =
     (let w1 = imprimir (Buscando (periodo self)) w0 in
      (case converter_periodo self of
         Inl e \<Rightarrow> (Inl e, self, w1)
       | Inr dt_referencia \<Rightarrow>
           (case montar_url_consulta self dt_referencia of
              Inl e \<Rightarrow> (Inl e, self, w1)
            | Inr (url_requisicao, dia_ini, dia_fim) \<Rightarrow>
                (let w2 = w1\<lparr>requisicoes := requisicoes w1 @ [url_requisicao]\<rparr> in
                 (case http url_requisicao of
                    Timeout \<Rightarrow> (Inr None, self, imprimir TempoEsgotado w2)
                  | RequestException \<Rightarrow> (Inr None, self, imprimir ErroRequisicao w2)
                  | Resposta None \<Rightarrow>
                      (Inr None, self, imprimir (NenhumaCotacao (periodo self)) w2)
                  | Resposta (Some []) \<Rightarrow>
                      (Inr None, self, imprimir (NenhumaCotacao (periodo self)) w2)
                  | Resposta (Some valor) \<Rightarrow>
                      (let dataframe = processar_dados_api valor;
                           w3 = imprimir (RegistrosObtidos (length dataframe)) w2
                       in (case preencher_dias_faltantes dataframe dt_referencia dia_ini dia_fim of
                             Inl e \<Rightarrow> (Inl e, self, w3)
                           | Inr (dataframe_completo, msgs) \<Rightarrow>
                               (Inr (Some dataframe_completo),
                                self\<lparr>dados_processados := Some dataframe_completo\<rparr>,
                                w3\<lparr>stdout := stdout w3 @ msgs\<rparr>))))))))"

definition gerar_grafico ::
    "'r consultador \<Rightarrow> mundo \<Rightarrow> (erro + string option) \<times> 'r consultador \<times> mundo" where
  "gerar_grafico self w =
     (case dados_processados self of
        None \<Rightarrow> (Inr None, self, imprimir SemDadosParaGrafico w)
      | Some df \<Rightarrow>
          (case converter_periodo self of
             Inl e \<Rightarrow> (Inl e, self, w)
           | Inr dt_ref \<Rightarrow>
               let nome_arquivo = ''grafico_dolar_ptax_'' @ periodo self @ ''.html'';
                   w1 = w\<lparr>arquivos := arquivos w @ [nome_arquivo]\<rparr>
               in (Inr (Some nome_arquivo), self, imprimir (GraficoSalvo nome_arquivo) w1)))"

text \<open>
  \<^verbatim>\<open>executar_consulta\<close> returns nothing and catches every exception, so its model returns
  the world only.
\<close>

definition executar_consulta :: "(string \<Rightarrow> 'r resposta) \<Rightarrow> string \<Rightarrow> mundo \<Rightarrow> mundo" where
  "executar_consulta http mes_ano w =
     (if length mes_ano \<noteq> 6 \<or> \<not> isdigit mes_ano then imprimir FormatoIncorreto w
      else
        let w1 = imprimir Cabecalho w;
            consultor = novo_consultador mes_ano
        in case buscar_cotacoes http consultor w1 of
             (Inl e, _, w2) \<Rightarrow> imprimir (ErroExecucao e) w2
           | (Inr None, _, w2) \<Rightarrow> imprimir Rodape w2
           | (Inr (Some dados), consultor', w2) \<Rightarrow>
               (case gerar_grafico consultor' w2 of
                  (Inl e, _, w3) \<Rightarrow> imprimir (ErroExecucao e) w3
                | (Inr _, _, w3) \<Rightarrow> imprimir Rodape (imprimir Estatisticas w3)))"



section \<open>ativdade01.py: the numpy calls it makes\<close>

text \<open>
  A one-dimensional array is the list of its elements. Division of a \<^verbatim>\<open>float64\<close> by
  zero gives \<^verbatim>\<open>inf\<close>, \<^verbatim>\<open>-inf\<close> or \<^verbatim>\<open>nan\<close>; \<^verbatim>\<open>1 - x\<close> and \<^verbatim>\<open>np.sqrt\<close> pass them on.
\<close>

definition np_div :: "real \<Rightarrow> real \<Rightarrow> npfloat" where
  "np_div a b =
     (if b \<noteq> 0 then Finite (a / b)
      else if a > 0 then PosInf else if a < 0 then NegInf else NaN)"

definition np_rsub :: "real \<Rightarrow> npfloat \<Rightarrow> npfloat" where
  "np_rsub c x =
     (case x of Finite r \<Rightarrow> Finite (c - r) | PosInf \<Rightarrow> NegInf | NegInf \<Rightarrow> PosInf | NaN \<Rightarrow> NaN)"

definition np_sqrt :: "npfloat \<Rightarrow> npfloat" where
  "np_sqrt x =
     (case x of
        Finite r \<Rightarrow> if r < 0 then NaN else Finite (sqrt r)
      | PosInf \<Rightarrow> PosInf
      | NegInf \<Rightarrow> NaN
      | NaN \<Rightarrow> NaN)"

text \<open>
  Elementwise subtraction of two arrays: equal lengths, or one of them of length 1 and
  broadcast; a \<^verbatim>\<open>ValueError\<close> otherwise.
\<close>

definition np_sub :: "real list \<Rightarrow> real list \<Rightarrow> erro + real list" where
  "np_sub as bs =
     (if length as = length bs then Inr (map (\<lambda>(a, b). a - b) (zip as bs))
      else if length as = 1 then Inr (map (\<lambda>b. hd as - b) bs)
      else if length bs = 1 then Inr (map (\<lambda>a. a - hd bs) as)
      else Inl ValueError)"

text \<open>
  \<^verbatim>\<open>np.mean\<close>. Of an empty array numpy's mean is \<^verbatim>\<open>nan\<close>; the script only subtracts the
  mean from the elements of the same array, so that for an empty array the value is
  never used.
\<close>

definition np_mean :: "real list \<Rightarrow> real" where
  "np_mean ys = sum_list ys / real (length ys)"

text \<open>
  \<^verbatim>\<open>np.column_stack([np.ones(n), x])\<close> is the list of the rows \<open>(1, x\<^sub>i)\<close>;
  \<^verbatim>\<open>M.T @ M\<close> is a two by two matrix, given by its rows; \<^verbatim>\<open>M.T @ y\<close> raises a
  \<^verbatim>\<open>ValueError\<close> when \<open>y\<close> has another length than \<open>M\<close> has rows.
\<close>

type_synonym vec2 = "real \<times> real"

type_synonym mat2 = "vec2 \<times> vec2"

definition column_stack_ones :: "nat \<Rightarrow> real list \<Rightarrow> vec2 list" where
  "column_stack_ones n xs = zip (replicate n 1) xs"

definition matT_mat :: "vec2 list \<Rightarrow> mat2" where
  "matT_mat M =
     ((sum_list (map (\<lambda>r. fst r * fst r) M), sum_list (map (\<lambda>r. fst r * snd r) M)),
      (sum_list (map (\<lambda>r. snd r * fst r) M), sum_list (map (\<lambda>r. snd r * snd r) M)))"

definition matT_vec :: "vec2 list \<Rightarrow> real list \<Rightarrow> erro + vec2" where
  "matT_vec M ys =
     (if length M \<noteq> length ys then Inl ValueError
      else Inr (sum_list (map (\<lambda>(r, y). fst r * y) (zip M ys)),
                sum_list (map (\<lambda>(r, y). snd r * y) (zip M ys))))"

text \<open>
  \<^verbatim>\<open>np.linalg.solve\<close> on a two by two system, as LAPACK's \<^verbatim>\<open>gesv\<close> does it: elimination
  with partial pivoting (the rows are swapped when the second has the larger first entry
  in absolute value); a zero pivot makes numpy raise \<^verbatim>\<open>LinAlgError\<close> (singular matrix).
\<close>

definition linalg_solve :: "mat2 \<Rightarrow> vec2 \<Rightarrow> erro + vec2" where
  "linalg_solve A b =
     (case A of ((a11, a12), (a21, a22)) \<Rightarrow>
      case b of (b1, b2) \<Rightarrow>
      case (if \<bar>a21\<bar> > \<bar>a11\<bar> then ((a21, a22, b2), (a11, a12, b1))
            else ((a11, a12, b1), (a21, a22, b2))) of
        ((p1, p2, c1), (q1, q2, c2)) \<Rightarrow>
          if p1 = 0 then Inl LinAlgError
          else
            let l = q1 / p1;
                u22 = q2 - l * p2
            in if u22 = 0 then Inl LinAlgError
               else
                 let x2 = (c2 - l * c1) / u22;
                     x1 = (c1 - p2 * x2) / p1
                 in Inr (x1, x2))"


section \<open>ativdade01.py: class ModeloRegressaoLinear\<close>

record modelo =
  dados_x :: "real list option"
  dados_y :: "real list option"
  coef_angular :: "real option"
  intercepto :: "real option"
  r_quadrado :: "npfloat option"
  predicoes :: "real list option"

definition novo_modelo :: modelo where
  "novo_modelo = \<lparr>dados_x = None, dados_y = None, coef_angular = None, intercepto = None,
                   r_quadrado = None, predicoes = None\<rparr>"

text \<open>
  \<^verbatim>\<open>np.loadtxt\<close> is a parameter: it gives the array of a file or the exception raised.
  With an empty array the \<^verbatim>\<open>min()\<close> of the report raises, which the method catches.
\<close>

definition carregar_dados ::
    "(string \<Rightarrow> erro + real list) \<Rightarrow> string \<Rightarrow> string \<Rightarrow> modelo \<Rightarrow> mundo \<Rightarrow> bool \<times> modelo \<times> mundo" where
  "carregar_dados loadtxt caminho_x caminho_y self w =
     (let falha = (\<lambda>e. if e = FileNotFoundError then ArquivoNaoEncontrado else ErroAoCarregar) in
      (case loadtxt caminho_x of
         Inl e \<Rightarrow> (False, self, imprimir (falha e) w)
       | Inr xs \<Rightarrow>
           (let self1 = self\<lparr>dados_x := Some xs\<rparr> in
            (case loadtxt caminho_y of
               Inl e \<Rightarrow> (False, self1, imprimir (falha e) w)
             | Inr ys \<Rightarrow>
                 (let self2 = self1\<lparr>dados_y := Some ys\<rparr>;
                      w1 = imprimir (DadosCarregados (length xs)) w
                  in if xs = [] \<or> ys = [] then (False, self2, imprimir ErroAoCarregar w1)
                     else (True, self2, w1))))))"

definition treinar_modelo :: "modelo \<Rightarrow> mundo \<Rightarrow> (erro + bool) \<times> modelo \<times> mundo" where
  "treinar_modelo self w =
     (case (dados_x self, dados_y self) of
        (Some xs, Some ys) \<Rightarrow>
          let w1 = imprimir Treinando w;
              n_observacoes = length xs;
              matriz_design = column_stack_ones n_observacoes xs;
              xtx = matT_mat matriz_design
          in (case matT_vec matriz_design ys of
                Inl e \<Rightarrow> (Inl e, self, w1)
              | Inr xty \<Rightarrow>
                  (case linalg_solve xtx xty of
                     Inl e \<Rightarrow> (Inl e, self, w1)
                   | Inr coeficientes \<Rightarrow>
                       let b0 = fst coeficientes;
                           b1 = snd coeficientes;
                           self1 = self\<lparr>intercepto := Some b0, coef_angular := Some b1,
                                        predicoes := Some (map (\<lambda>x. b0 + b1 * x) xs)\<rparr>
                       in (Inr True, self1, imprimir ModeloTreinado w1)))
      | _ \<Rightarrow> (Inr False, self, imprimir CarregueOsDadosPrimeiro w))"

text \<open>
  \<^verbatim>\<open>calcular_metricas\<close> stores R squared and prints it with the coefficients and the RMSE,
  which it does not store: the RMSE is the last field of the message \<open>Metricas\<close>.
  Formatting a coefficient that is \<^verbatim>\<open>None\<close> raises a \<^verbatim>\<open>TypeError\<close>, as does subtracting
  an array from \<^verbatim>\<open>None\<close>.
\<close>

definition calcular_metricas :: "modelo \<Rightarrow> mundo \<Rightarrow> (erro + unit) \<times> modelo \<times> mundo" where
  "calcular_metricas self w =
     (case predicoes self of
        None \<Rightarrow> (Inr (), self, imprimir TreineOModeloPrimeiro w)
      | Some preds \<Rightarrow>
          (case dados_y self of
             None \<Rightarrow> (Inl TypeError, self, w)
           | Some ys \<Rightarrow>
               (case np_sub ys preds of
                  Inl e \<Rightarrow> (Inl e, self, w)
                | Inr residuos \<Rightarrow>
                    let soma_quad_residuos = sum_list (map (\<lambda>r. r ^ 2) residuos);
                        media = np_mean ys;
                        soma_quad_total = sum_list (map (\<lambda>y. (y - media) ^ 2) ys);
                        r2 = np_rsub 1 (np_div soma_quad_residuos soma_quad_total);
                        self1 = self\<lparr>r_quadrado := Some r2\<rparr>;
                        mse = np_div soma_quad_residuos (real (length ys));
                        rmse = np_sqrt mse
                    in (case (intercepto self, coef_angular self) of
                          (Some b0, Some b1) \<Rightarrow> (Inr (), self1, imprimir (Metricas b0 b1 r2 rmse) w)
                        | _ \<Rightarrow> (Inl TypeError, self1, w)))))"

text \<open>
  \<^verbatim>\<open>plotar_resultados\<close>: the chart is not modelled, the file it writes is. The legend
  formats \<^verbatim>\<open>r_quadrado\<close>, a \<^verbatim>\<open>TypeError\<close> when it is still \<^verbatim>\<open>None\<close>.
\<close>

definition plotar_resultados ::
    "modelo \<Rightarrow> string \<Rightarrow> mundo \<Rightarrow> (erro + string option) \<times> modelo \<times> mundo" where
  "plotar_resultados self salvar_como w =
     (case predicoes self of
        None \<Rightarrow> (Inr None, self, imprimir TreineOModeloPrimeiro w)
      | Some preds \<Rightarrow>
          let w1 = imprimir GerandoVisualizacao w in
          (case r_quadrado self of
             None \<Rightarrow> (Inl TypeError, self, w1)
           | Some r2 \<Rightarrow>
               let w2 = w1\<lparr>arquivos := arquivos w1 @ [salvar_como]\<rparr>
               in (Inr (Some salvar_como), self, imprimir (VisualizacaoSalva salvar_como) w2)))"

definition executar_analise_completa ::
    "(string \<Rightarrow> erro + real list) \<Rightarrow> string \<Rightarrow> string \<Rightarrow> string \<Rightarrow> modelo \<Rightarrow> mundo \<Rightarrow>
     (erro + bool) \<times> modelo \<times> mundo" where
  "executar_analise_completa loadtxt arquivo_x arquivo_y arquivo_saida self w =
     (case carregar_dados loadtxt arquivo_x arquivo_y self w of
        (False, self1, w1) \<Rightarrow> (Inr False, self1, w1)
      | (True, self1, w1) \<Rightarrow>
          (case treinar_modelo self1 w1 of
             (Inl e, self2, w2) \<Rightarrow> (Inl e, self2, w2)
           | (Inr False, self2, w2) \<Rightarrow> (Inr False, self2, w2)
           | (Inr True, self2, w2) \<Rightarrow>
               (case calcular_metricas self2 w2 of
                  (Inl e, self3, w3) \<Rightarrow> (Inl e, self3, w3)
                | (Inr _, self3, w3) \<Rightarrow>
                    (case plotar_resultados self3 arquivo_saida w3 of
                       (Inl e, self4, w4) \<Rightarrow> (Inl e, self4, w4)
                     | (Inr _, self4, w4) \<Rightarrow> (Inr True, self4, w4)))))"



section \<open>Notions used to state the properties\<close>

text \<open>The last value seen when reading the cells \<open>g d\<close> along a list of days.\<close>

fun ultimo_visto :: "'r option \<Rightarrow> ('k \<Rightarrow> 'r option) \<Rightarrow> 'k list \<Rightarrow> 'r option" where
  "ultimo_visto u g [] = u"
| "ultimo_visto u g (d # ds) = ultimo_visto (case g d of None \<Rightarrow> u | Some v \<Rightarrow> Some v) g ds"





text \<open>
  The month length in the specification's words: thirty days for April, June, September
  and November, twenty-eight for February and twenty-nine in a leap year, thirty-one
  otherwise; a year is a leap year when it is divisible by 4 and, if divisible by 100,
  also by 400.
\<close>

definition bissexto :: "nat \<Rightarrow> bool" where
  "bissexto year = (4 dvd year \<and> (\<not> 100 dvd year \<or> 400 dvd year))"

definition dias_no_mes :: "nat \<Rightarrow> nat \<Rightarrow> nat" where
  "dias_no_mes year month =
     (if month = 2 then (if bissexto year then 29 else 28)
      else if month = 4 \<or> month = 6 \<or> month = 9 \<or> month = 11 then 30
      else 31)"

text \<open>
  A period the script accepts: six ASCII digits, the first two a month from 1 to 12, the
  last four a year other than 0000.
\<close>

definition periodo_valido :: "string \<Rightarrow> bool" where
  "periodo_valido s =
     (length s = 6 \<and> list_all ascii_digit s
      \<and> 1 \<le> int_of_digits (take 2 s) \<and> int_of_digits (take 2 s) \<le> 12
      \<and> int_of_digits (drop 2 s) \<noteq> 0)"

text \<open>Three services to run the lookup against: no record, a timeout, a failed request.\<close>

definition servico_vazio :: "string \<Rightarrow> 'r resposta" where
  "servico_vazio url = Resposta (Some [])"

definition servico_timeout :: "string \<Rightarrow> 'r resposta" where
  "servico_timeout url = Timeout"

definition servico_falha :: "string \<Rightarrow> 'r resposta" where
  "servico_falha url = RequestException"



section \<open>The gap filler carries the last observation forward\<close>

lemma filter_distinct_key:
  "distinct (map fst df) \<Longrightarrow>
   filter (\<lambda>linha. fst linha = dia) df = (case map_of df dia of None \<Rightarrow> [] | Some v \<Rightarrow> [(dia, v)])"
proof (induction df)
  case Nil
  then show ?case by simp
next
  case (Cons a df)
  obtain k v where a: "a = (k, v)" by (cases a)
  show ?case
  proof (cases "k = dia")
    case True
    with Cons.prems a have "dia \<notin> fst ` set df" by simp
    then have "filter (\<lambda>linha. fst linha = dia) df = []"
      by (auto simp: filter_empty_conv)
    with True a show ?thesis by simp
  next
    case False
    with Cons a show ?thesis by simp
  qed
qed

lemma merge_left_distinct:
  "distinct (map fst df) \<Longrightarrow> merge_left dias df = map (\<lambda>dia. (dia, map_of df dia)) dias"
  by (induction dias) (simp_all add: merge_left_def filter_distinct_key split: option.splits)

lemma length_ffill: "length (ffill u xs) = length xs"
  by (induction u xs rule: ffill.induct) simp_all

lemma map_fst_ffill: "map fst (ffill u xs) = map fst xs"
  by (induction u xs rule: ffill.induct) simp_all

lemma ffill_nth:
  "k < length ds \<Longrightarrow>
   ffill u (map (\<lambda>d. (d, g d)) ds) ! k = (ds ! k, ultimo_visto u g (take (Suc k) ds))"
proof (induction ds arbitrary: u k)
  case Nil
  then show ?case by simp
next
  case (Cons d ds)
  show ?case
  proof (cases "g d")
    case None
    with Cons show ?thesis by (cases k) simp_all
  next
    case (Some v)
    with Cons show ?thesis by (cases k) simp_all
  qed
qed

lemma ultimo_visto_append:
  "ultimo_visto u g (xs @ ys) = ultimo_visto (ultimo_visto u g xs) g ys"
  by (induction xs arbitrary: u) simp_all

lemma ultimo_visto_all_None:
  "\<forall>d\<in>set ds. g d = None \<Longrightarrow> ultimo_visto u g ds = u"
  by (induction ds arbitrary: u) simp_all

lemma ultimo_visto_from:
  "ultimo_visto None g ds = Some v \<Longrightarrow> \<exists>d\<in>set ds. g d = Some v"
proof (induction ds rule: rev_induct)
  case Nil
  then show ?case by simp
next
  case (snoc d ds)
  then show ?case by (cases "g d") (auto simp: ultimo_visto_append)
qed


lemma preencher_dias_faltantes_eq:
  assumes "1 \<le> year" "year \<le> 9999" "monthrange year month = Inr n"
      and "1 \<le> lo" "lo \<le> n" "1 \<le> hi" "hi \<le> n"
  shows "\<exists>msgs. preencher_dias_faltantes df (year, month, d0) lo hi =
           Inr (ffill None (merge_left (map (\<lambda>d. (year, month, d)) [lo..<Suc hi]) df), msgs)"
proof -
  from assms(3) have m: "1 \<le> month" "month \<le> 12"
    and n: "n = mdays ! month + (if month = 2 \<and> isleap year then 1 else 0)"
    by (auto simp: monthrange_def split: if_splits)
  from assms m n have "py_datetime year month lo = Inr (year, month, lo)"
    and "py_datetime year month hi = Inr (year, month, hi)"
    by (simp_all add: py_datetime_def)
  then show ?thesis
    by (simp add: preencher_dias_faltantes_def date_range_def Let_def)
qed

lemma preencher_linha:
  assumes "distinct (map fst df)" "lo \<le> d" "d \<le> hi"
  shows "ffill None (merge_left (map (\<lambda>d. (year, month, d)) [lo..<Suc hi]) df) ! (d - lo) =
           ((year, month, d), ultimo_visto None (map_of df) (map (\<lambda>d. (year, month, d)) [lo..<Suc d]))"
proof -
  let ?f = "\<lambda>d::nat. (year, month, d)"
  let ?ds = "map ?f [lo..<Suc hi]"
  have k: "d - lo < length ?ds" using assms by simp
  have t: "take (Suc (d - lo)) ?ds = map ?f [lo..<Suc d]"
    using assms by (simp add: take_map del: upt_Suc)
  have "[lo..<Suc hi] ! (d - lo) = lo + (d - lo)"
    using assms by (intro nth_upt) simp
  then have "?ds ! (d - lo) = ?f d"
    using assms by (simp del: upt_Suc)
  with ffill_nth [OF k, of None "map_of df"] t show ?thesis
    by (simp add: merge_left_distinct [OF assms(1)] del: upt_Suc)
qed


text \<open>
  Claim C2. Given a frame with at most one row per day and a range of days \<open>lo..hi\<close> of
  one month, \<^verbatim>\<open>_preencher_dias_faltantes\<close> returns one row per day of the range, in order:
  a day with a quote keeps it; a day without one takes the rate of the nearest earlier
  day of the range that has one; a day with no quote at or before it in the range stays
  missing.
\<close>

theorem preencher_dias_faltantes_locf:
  assumes "distinct (map fst df)"
      and "1 \<le> year" "year \<le> 9999" "monthrange year month = Inr n"
      and "1 \<le> lo" "lo \<le> n" "1 \<le> hi" "hi \<le> n"
  shows "\<exists>out msgs. preencher_dias_faltantes df (year, month, d0) lo hi = Inr (out, msgs)
     \<and> map fst out = map (\<lambda>d. (year, month, d)) [lo..<Suc hi]
     \<and> (\<forall>d v. lo \<le> d \<and> d \<le> hi \<and> ((year, month, d), v) \<in> set df
          \<longrightarrow> out ! (d - lo) = ((year, month, d), Some v))
     \<and> (\<forall>d d' v. lo \<le> d' \<and> d' < d \<and> d \<le> hi \<and> ((year, month, d'), v) \<in> set df
            \<and> (\<forall>d''. d' < d'' \<and> d'' \<le> d \<longrightarrow> (year, month, d'') \<notin> fst ` set df)
          \<longrightarrow> out ! (d - lo) = ((year, month, d), Some v))
     \<and> (\<forall>d. lo \<le> d \<and> d \<le> hi
            \<and> (\<forall>d'. lo \<le> d' \<and> d' \<le> d \<longrightarrow> (year, month, d') \<notin> fst ` set df)
          \<longrightarrow> out ! (d - lo) = ((year, month, d), None))"
proof -
  let ?f = "\<lambda>d::nat. (year, month, d)"
  let ?g = "map_of df"
  let ?out = "ffill None (merge_left (map ?f [lo..<Suc hi]) df)"
  from preencher_dias_faltantes_eq [OF assms(2-8)]
  obtain msgs where eq: "preencher_dias_faltantes df (year, month, d0) lo hi = Inr (?out, msgs)"
    by blast
  have dias: "map fst ?out = map ?f [lo..<Suc hi]"
    by (simp add: map_fst_ffill merge_left_distinct [OF assms(1)] comp_def del: upt_Suc)
  have direto: "?out ! (d - lo) = (?f d, Some v)"
    if "lo \<le> d" "d \<le> hi" "(?f d, v) \<in> set df" for d v
  proof -
    from that assms(1) have "?g (?f d) = Some v" by simp
    moreover have "[lo..<Suc d] = [lo..<d] @ [d]" using that by simp
    ultimately have "ultimo_visto None ?g (map ?f [lo..<Suc d]) = Some v"
      by (simp add: ultimo_visto_append)
    with preencher_linha [OF assms(1) that(1,2)] show ?thesis by simp
  qed
  have anterior: "?out ! (d - lo) = (?f d, Some v)"
    if "lo \<le> d'" "d' < d" "d \<le> hi" "(?f d', v) \<in> set df"
      "\<forall>d''. d' < d'' \<and> d'' \<le> d \<longrightarrow> ?f d'' \<notin> fst ` set df" for d d' v
  proof -
    from that assms(1) have "?g (?f d') = Some v" by simp
    moreover have "[lo..<Suc d] = [lo..<d'] @ [d'] @ [Suc d'..<Suc d]"
    proof -
      have "[lo..<d' + (Suc d - d')] = [lo..<d'] @ [d'..<d' + (Suc d - d')]"
        using that(1) by (rule upt_add_eq_append)
      then have "[lo..<Suc d] = [lo..<d'] @ [d'..<Suc d]"
        using that(2) by simp
      moreover have "[d'..<Suc d] = d' # [Suc d'..<Suc d]"
        using that(2) by (simp add: upt_conv_Cons del: upt_Suc)
      ultimately show ?thesis by simp
    qed
    moreover have "\<forall>k\<in>set (map ?f [Suc d'..<Suc d]). ?g k = None"
      using that(5) by (auto simp: map_of_eq_None_iff simp del: upt_Suc)
    ultimately have "ultimo_visto None ?g (map ?f [lo..<Suc d]) = Some v"
      by (simp add: ultimo_visto_append ultimo_visto_all_None del: upt_Suc)
    with preencher_linha [OF assms(1), of lo d hi] that show ?thesis by simp
  qed
  have nenhum: "?out ! (d - lo) = (?f d, None)"
    if "lo \<le> d" "d \<le> hi" "\<forall>d'. lo \<le> d' \<and> d' \<le> d \<longrightarrow> ?f d' \<notin> fst ` set df" for d
  proof -
    have "\<forall>k\<in>set (map ?f [lo..<Suc d]). ?g k = None"
      using that(3) by (auto simp: map_of_eq_None_iff simp del: upt_Suc)
    then have "ultimo_visto None ?g (map ?f [lo..<Suc d]) = None"
      by (rule ultimo_visto_all_None)
    with preencher_linha [OF assms(1) that(1,2)] show ?thesis by simp
  qed
  from eq dias direto anterior nenhum show ?thesis by blast
qed

lemma monthrange_ge_28: "monthrange year month = Inr n \<Longrightarrow> 28 \<le> n \<and> n \<le> 31"
proof -
  assume a: "monthrange year month = Inr n"
  then have "1 \<le> month" "month \<le> 12"
    by (auto simp: monthrange_def split: if_splits)
  then have "month = 1 \<or> month = 2 \<or> month = 3 \<or> month = 4 \<or> month = 5 \<or> month = 6
      \<or> month = 7 \<or> month = 8 \<or> month = 9 \<or> month = 10 \<or> month = 11 \<or> month = 12"
    by arith
  with a show ?thesis
    by (auto simp: monthrange_def mdays_def split: if_splits)
qed

text \<open>
  Claim C9. For a frame with at most one row per day, the result for a whole month (days
  1 to the last day \<open>n\<close> of the month, as \<^verbatim>\<open>buscar_cotacoes\<close> calls it) has exactly one row
  for every day of the month, so \<open>n\<close> rows, in strictly ascending date order, and every
  rate present is the rate of an observed day of the month at or before that row's day.
\<close>

theorem preencher_dias_faltantes_invariante:
  assumes "distinct (map fst df)"
      and "1 \<le> year" "year \<le> 9999" "monthrange year month = Inr n"
  shows "\<exists>out msgs. preencher_dias_faltantes df (year, month, d0) 1 n = Inr (out, msgs)
     \<and> map fst out = map (\<lambda>d. (year, month, d)) [1..<Suc n]
     \<and> length out = n
     \<and> sorted_wrt (<) (map fst out)
     \<and> (\<forall>linha\<in>set out. \<forall>v. snd linha = Some v \<longrightarrow>
           (\<exists>dia. (year, month, 1) \<le> dia \<and> dia \<le> fst linha \<and> (dia, v) \<in> set df))"
proof -
  let ?f = "\<lambda>d::nat. (year, month, d)"
  let ?out = "ffill None (merge_left (map ?f [1..<Suc n]) df)"
  from monthrange_ge_28 [OF assms(4)] have n: "1 \<le> n" by simp
  have um: "(1::nat) \<le> 1" and nn: "n \<le> n" by simp_all
  from preencher_dias_faltantes_eq [OF assms(2-4) um n n nn]
  obtain msgs where eq: "preencher_dias_faltantes df (year, month, d0) 1 n = Inr (?out, msgs)"
    by auto
  have dias: "map fst ?out = map ?f [1..<Suc n]"
    by (simp add: map_fst_ffill merge_left_distinct [OF assms(1)] comp_def del: upt_Suc)
  from dias have len: "length ?out = n"
    by (metis length_map length_upt diff_Suc_1)
  have "sorted_wrt (<) (map ?f [1..<Suc n])"
    by (simp add: sorted_wrt_map del: upt_Suc)
  with dias have ord: "sorted_wrt (<) (map fst ?out)" by simp
  have origem: "\<exists>dia. ?f 1 \<le> dia \<and> dia \<le> fst linha \<and> (dia, v) \<in> set df"
    if "linha \<in> set ?out" "snd linha = Some v" for linha v
  proof -
    from that(1) len obtain k where k: "k < n" "linha = ?out ! k"
      by (auto simp: in_set_conv_nth)
    from k(1) have "1 \<le> Suc k" "Suc k \<le> n" by simp_all
    from preencher_linha [OF assms(1) this, of year month] k(2)
    have l: "linha = (?f (Suc k), ultimo_visto None (map_of df) (map ?f [1..<Suc (Suc k)]))"
      by simp
    with that(2) have "ultimo_visto None (map_of df) (map ?f [1..<Suc (Suc k)]) = Some v"
      by simp
    from ultimo_visto_from [OF this]
    obtain d where d: "1 \<le> d" "d \<le> Suc k" "map_of df (?f d) = Some v"
      by (auto simp del: upt_Suc)
    from d(3) have "(?f d, v) \<in> set df" by (rule map_of_SomeD)
    with d(1,2) l show ?thesis by (intro exI [of _ "?f d"]) simp
  qed
  from eq dias len ord origem show ?thesis by blast
qed

lemma monthrange_fev_2019: "monthrange 2019 2 = Inr 28"
  by (simp add: monthrange_def mdays_def isleap_def)

text \<open>
  The two examples of the specification: quotes on days 1 and 3, and a quote on day 3
  only, over the days 1 to 5.
\<close>

theorem preencher_dias_faltantes_locf_witness:
  "(\<exists>out msgs.
      preencher_dias_faltantes [((2019, 2, 1), 10 :: real), ((2019, 2, 3), 12)] (2019, 2, 1) 1 5
        = Inr (out, msgs)
      \<and> map fst out = [(2019, 2, 1), (2019, 2, 2), (2019, 2, 3), (2019, 2, 4), (2019, 2, 5)]
      \<and> out ! 0 = ((2019, 2, 1), Some 10) \<and> out ! 1 = ((2019, 2, 2), Some 10)
      \<and> out ! 2 = ((2019, 2, 3), Some 12) \<and> out ! 3 = ((2019, 2, 4), Some 12)
      \<and> out ! 4 = ((2019, 2, 5), Some 12))
   \<and> (\<exists>out msgs.
      preencher_dias_faltantes [((2019, 2, 3), 12 :: real)] (2019, 2, 1) 1 5 = Inr (out, msgs)
      \<and> map fst out = [(2019, 2, 1), (2019, 2, 2), (2019, 2, 3), (2019, 2, 4), (2019, 2, 5)]
      \<and> out ! 0 = ((2019, 2, 1), None) \<and> out ! 1 = ((2019, 2, 2), None)
      \<and> out ! 2 = ((2019, 2, 3), Some 12) \<and> out ! 3 = ((2019, 2, 4), Some 12)
      \<and> out ! 4 = ((2019, 2, 5), Some 12))"
proof -
  let ?df1 = "[((2019, 2, 1), 10 :: real), ((2019 :: nat, 2 :: nat, 3 :: nat), 12)]"
  let ?df2 = "[((2019 :: nat, 2 :: nat, 3 :: nat), 12 :: real)]"
  have r: "[1..<Suc 5] = [1, 2, 3, 4, 5]" by (simp add: upt_rec)
  have h: "(1::nat) \<le> 2019" "(2019::nat) \<le> 9999" "(1::nat) \<le> 1" "(1::nat) \<le> 28"
    "(1::nat) \<le> 5" "(5::nat) \<le> 28"
    by simp_all
  have d1: "distinct (map fst ?df1)" and d2: "distinct (map fst ?df2)" by simp_all
  from preencher_dias_faltantes_locf [OF d1 h(1,2) monthrange_fev_2019 h(3-6), of 1]
  obtain out msgs where
    eq: "preencher_dias_faltantes ?df1 (2019, 2, 1) 1 5 = Inr (out, msgs)" and
    dias: "map fst out = map (\<lambda>d. (2019, 2, d)) [1..<Suc 5]" and
    direto: "\<forall>d v. 1 \<le> d \<and> d \<le> 5 \<and> ((2019, 2, d), v) \<in> set ?df1
               \<longrightarrow> out ! (d - 1) = ((2019, 2, d), Some v)" and
    anterior: "\<forall>d d' v. 1 \<le> d' \<and> d' < d \<and> d \<le> 5 \<and> ((2019, 2, d'), v) \<in> set ?df1
               \<and> (\<forall>d''. d' < d'' \<and> d'' \<le> d \<longrightarrow> (2019, 2, d'') \<notin> fst ` set ?df1)
               \<longrightarrow> out ! (d - 1) = ((2019, 2, d), Some v)"
    by blast
  from direto [rule_format, of 1 10] have a0: "out ! 0 = ((2019, 2, 1), Some 10)" by simp
  from direto [rule_format, of 3 12] have a2: "out ! 2 = ((2019, 2, 3), Some 12)" by simp
  from anterior [rule_format, of 1 2 10] have a1: "out ! 1 = ((2019, 2, 2), Some 10)" by auto
  from anterior [rule_format, of 3 4 12] have a3: "out ! 3 = ((2019, 2, 4), Some 12)" by auto
  from anterior [rule_format, of 3 5 12] have a4: "out ! 4 = ((2019, 2, 5), Some 12)" by auto
  from dias r have a5: "map fst out = [(2019, 2, 1), (2019, 2, 2), (2019, 2, 3), (2019, 2, 4), (2019, 2, 5)]"
    by simp
  from preencher_dias_faltantes_locf [OF d2 h(1,2) monthrange_fev_2019 h(3-6), of 1]
  obtain out' msgs' where
    eq': "preencher_dias_faltantes ?df2 (2019, 2, 1) 1 5 = Inr (out', msgs')" and
    dias': "map fst out' = map (\<lambda>d. (2019, 2, d)) [1..<Suc 5]" and
    direto': "\<forall>d v. 1 \<le> d \<and> d \<le> 5 \<and> ((2019, 2, d), v) \<in> set ?df2
               \<longrightarrow> out' ! (d - 1) = ((2019, 2, d), Some v)" and
    anterior': "\<forall>d d' v. 1 \<le> d' \<and> d' < d \<and> d \<le> 5 \<and> ((2019, 2, d'), v) \<in> set ?df2
               \<and> (\<forall>d''. d' < d'' \<and> d'' \<le> d \<longrightarrow> (2019, 2, d'') \<notin> fst ` set ?df2)
               \<longrightarrow> out' ! (d - 1) = ((2019, 2, d), Some v)" and
    nenhum': "\<forall>d. 1 \<le> d \<and> d \<le> 5
               \<and> (\<forall>d'. 1 \<le> d' \<and> d' \<le> d \<longrightarrow> (2019, 2, d') \<notin> fst ` set ?df2)
               \<longrightarrow> out' ! (d - 1) = ((2019, 2, d), None)"
    by blast
  from nenhum' [rule_format, of 1] have b0: "out' ! 0 = ((2019, 2, 1), None)" by auto
  from nenhum' [rule_format, of 2] have b1: "out' ! 1 = ((2019, 2, 2), None)" by auto
  from direto' [rule_format, of 3 12] have b2: "out' ! 2 = ((2019, 2, 3), Some 12)" by simp
  from anterior' [rule_format, of 3 4 12] have b3: "out' ! 3 = ((2019, 2, 4), Some 12)" by auto
  from anterior' [rule_format, of 3 5 12] have b4: "out' ! 4 = ((2019, 2, 5), Some 12)" by auto
  from dias' r have b5: "map fst out' = [(2019, 2, 1), (2019, 2, 2), (2019, 2, 3), (2019, 2, 4), (2019, 2, 5)]"
    by simp
  from eq a0 a1 a2 a3 a4 a5 have A: "\<exists>out msgs.
      preencher_dias_faltantes ?df1 (2019, 2, 1) 1 5 = Inr (out, msgs)
      \<and> map fst out = [(2019, 2, 1), (2019, 2, 2), (2019, 2, 3), (2019, 2, 4), (2019, 2, 5)]
      \<and> out ! 0 = ((2019, 2, 1), Some 10) \<and> out ! 1 = ((2019, 2, 2), Some 10)
      \<and> out ! 2 = ((2019, 2, 3), Some 12) \<and> out ! 3 = ((2019, 2, 4), Some 12)
      \<and> out ! 4 = ((2019, 2, 5), Some 12)"
    by (intro exI [of _ out] exI [of _ msgs]) simp
  from eq' b0 b1 b2 b3 b4 b5 have B: "\<exists>out msgs.
      preencher_dias_faltantes ?df2 (2019, 2, 1) 1 5 = Inr (out, msgs)
      \<and> map fst out = [(2019, 2, 1), (2019, 2, 2), (2019, 2, 3), (2019, 2, 4), (2019, 2, 5)]
      \<and> out ! 0 = ((2019, 2, 1), None) \<and> out ! 1 = ((2019, 2, 2), None)
      \<and> out ! 2 = ((2019, 2, 3), Some 12) \<and> out ! 3 = ((2019, 2, 4), Some 12)
      \<and> out ! 4 = ((2019, 2, 5), Some 12)"
    by (intro exI [of _ out'] exI [of _ msgs']) simp
  from A B show ?thesis by (rule conjI)
qed

theorem preencher_dias_faltantes_invariante_witness:
  "\<exists>out msgs.
      preencher_dias_faltantes [((2019, 2, 4), 37 :: real), ((2019, 2, 6), 38)] (2019, 2, 1) 1 28
        = Inr (out, msgs)
      \<and> length out = 28
      \<and> sorted_wrt (<) (map fst out)
      \<and> (\<forall>linha\<in>set out. \<forall>v. snd linha = Some v \<longrightarrow>
           (\<exists>dia. (2019, 2, 1) \<le> dia \<and> dia \<le> fst linha
              \<and> (dia, v) \<in> set [((2019, 2, 4), 37), ((2019, 2, 6), 38)]))"
proof -
  have d: "distinct (map fst [((2019 :: nat, 2 :: nat, 4 :: nat), 37 :: real), ((2019, 2, 6), 38)])"
    by simp
  have h: "(1::nat) \<le> 2019" "(2019::nat) \<le> 9999" by simp_all
  from preencher_dias_faltantes_invariante [OF d h monthrange_fev_2019, of 1]
  show ?thesis by blast
qed



section \<open>The least-squares fit\<close>

lemma column_stack_ones_map: "column_stack_ones (length xs) xs = map (\<lambda>x. (1, x)) xs"
  unfolding column_stack_ones_def by (induction xs) simp_all



lemma matT_vec_mismatch:
  "length xs \<noteq> length ys \<Longrightarrow> matT_vec (column_stack_ones (length xs) xs) ys = Inl ValueError"
  by (simp add: matT_vec_def column_stack_ones_map)





















section \<open>The metrics\<close>











section \<open>Fitting points that lie on a line\<close>










text \<open>
  The whole pipeline on the same example, the two files read through \<^verbatim>\<open>loadtxt\<close>: the
  coefficients, R squared, the RMSE printed and the chart file written.
\<close>

lemma executar_analise_completa_exemplo:
  assumes "loadtxt ''X.txt'' = Inr [1, 2, 3]" "loadtxt ''y.txt'' = Inr [2, 4, 6]"
  shows "executar_analise_completa loadtxt ''X.txt'' ''y.txt'' ''analise_regressao.html''
           novo_modelo mundo_inicial
         = (Inr True,
            \<lparr>dados_x = Some [1, 2, 3], dados_y = Some [2, 4, 6], coef_angular = Some 2,
             intercepto = Some 0, r_quadrado = Some (Finite 1), predicoes = Some [2, 4, 6]\<rparr>,
            \<lparr>stdout = [DadosCarregados 3, Treinando, ModeloTreinado,
                       Metricas 0 2 (Finite 1) (Finite 0), GerandoVisualizacao,
                       VisualizacaoSalva ''analise_regressao.html''],
             requisicoes = [], arquivos = [''analise_regressao.html'']\<rparr>)"
proof -
  let ?s1 = "novo_modelo\<lparr>dados_x := Some [1, 2, 3], dados_y := Some [2, 4, 6]\<rparr>"
  let ?w1 = "imprimir (DadosCarregados 3) mundo_inicial"
  let ?s2 = "?s1\<lparr>intercepto := Some 0, coef_angular := Some 2, predicoes := Some [2, 4, 6]\<rparr>"
  let ?w2 = "imprimir ModeloTreinado (imprimir Treinando ?w1)"
  let ?s3 = "?s2\<lparr>r_quadrado := Some (Finite 1)\<rparr>"
  let ?w3 = "imprimir (Metricas 0 2 (Finite 1) (Finite 0)) ?w2"
  have c: "carregar_dados loadtxt ''X.txt'' ''y.txt'' novo_modelo mundo_inicial = (True, ?s1, ?w1)"
    using assms by (simp add: carregar_dados_def Let_def numeral_3_eq_3)
  have t: "treinar_modelo ?s1 ?w1 = (Inr True, ?s2, ?w2)"
    by (simp add: treinar_modelo_def novo_modelo_def column_stack_ones_def matT_mat_def
        matT_vec_def linalg_solve_def Let_def)
  have m: "calcular_metricas ?s2 ?w2 = (Inr (), ?s3, ?w3)"
    by (simp add: calcular_metricas_def novo_modelo_def np_sub_def np_mean_def np_div_def
        np_rsub_def np_sqrt_def Let_def)
  have p: "plotar_resultados ?s3 ''analise_regressao.html'' ?w3 =
      (Inr (Some ''analise_regressao.html''), ?s3,
       imprimir (VisualizacaoSalva ''analise_regressao.html'')
         ((imprimir GerandoVisualizacao ?w3)
            \<lparr>arquivos := arquivos (imprimir GerandoVisualizacao ?w3) @ [''analise_regressao.html'']\<rparr>))"
    by (simp add: plotar_resultados_def novo_modelo_def Let_def)
  have "executar_analise_completa loadtxt ''X.txt'' ''y.txt'' ''analise_regressao.html''
           novo_modelo mundo_inicial
        = (Inr True, ?s3,
           imprimir (VisualizacaoSalva ''analise_regressao.html'')
             ((imprimir GerandoVisualizacao ?w3)
                \<lparr>arquivos := arquivos (imprimir GerandoVisualizacao ?w3)
                               @ [''analise_regressao.html'']\<rparr>))"
    by (simp only: executar_analise_completa_def c t m p prod.case bool.case sum.case
        option.case unit.case)
  then show ?thesis
    by (simp add: novo_modelo_def mundo_inicial_def imprimir_def)
qed



section \<open>The rows built from the service's records\<close>

lemma processar_dados_api_mset:
  "mset (processar_dados_api valor) = mset (map (\<lambda>r. (fst (fst r), snd r)) valor)"
  by (simp add: processar_dados_api_def case_prod_unfold)

lemma processar_dados_api_sorted: "sorted (map fst (processar_dados_api valor))"
  by (simp add: processar_dados_api_def)

text \<open>
  Claim C4, amended. \<^verbatim>\<open>buscar_cotacoes\<close> turns the records of the answer into one row per
  record, holding the date part of the record's timestamp and its sell rate, sorted in
  ascending order by day. It drops no row: the rows are, as a multiset, the records.
\<close>

theorem processar_dados_api_ordena_sem_reduzir:
  "mset (processar_dados_api valor) = mset (map (\<lambda>r. (fst (fst r), snd r)) valor)
   \<and> length (processar_dados_api valor) = length valor
   \<and> sorted (map fst (processar_dados_api valor))"
  using processar_dados_api_mset [of valor] processar_dados_api_sorted [of valor]
  by (simp add: processar_dados_api_def)

text \<open>
  Claim C4 as stated fails: two records of the same day give two rows for that day.
\<close>

theorem processar_dados_api_counterexample:
  "map fst (processar_dados_api
      [(((2019, 2, 1), 600), 37 :: real), (((2019, 2, 1), 780), 38)])
     = [(2019, 2, 1), (2019, 2, 1)]
   \<and> \<not> distinct (map fst (processar_dados_api
      [(((2019, 2, 1), 600), 37 :: real), (((2019, 2, 1), 780), 38)]))"
  by (simp add: processar_dados_api_def)

lemma mdays_ge_28: "1 \<le> month \<Longrightarrow> month \<le> 12 \<Longrightarrow> 28 \<le> mdays ! month"
proof -
  assume "1 \<le> month" "month \<le> 12"
  then have "month = 1 \<or> month = 2 \<or> month = 3 \<or> month = 4 \<or> month = 5 \<or> month = 6
      \<or> month = 7 \<or> month = 8 \<or> month = 9 \<or> month = 10 \<or> month = 11 \<or> month = 12"
    by arith
  then show ?thesis by (auto simp: mdays_def)
qed

lemma isleap_bissexto: "isleap year = bissexto year"
  by (auto simp: isleap_def bissexto_def dvd_eq_mod_eq_0)

lemma monthrange_dias_no_mes:
  assumes "1 \<le> month" "month \<le> 12"
  shows "monthrange year month = Inr (dias_no_mes year month)"
proof -
  from assms have "month = 1 \<or> month = 2 \<or> month = 3 \<or> month = 4 \<or> month = 5 \<or> month = 6
      \<or> month = 7 \<or> month = 8 \<or> month = 9 \<or> month = 10 \<or> month = 11 \<or> month = 12"
    by arith
  then show ?thesis
    by (auto simp: monthrange_def mdays_def dias_no_mes_def isleap_bissexto)
qed

lemma converter_periodo_mes:
  assumes "converter_periodo self = Inr dt"
  shows "1 \<le> fst dt \<and> fst dt \<le> 9999 \<and> 1 \<le> fst (snd dt) \<and> fst (snd dt) \<le> 12 \<and> snd (snd dt) = 1"
proof -
  from assms have "strptime_mY (periodo self) = Inr dt"
    by (simp add: converter_periodo_def split: sum.splits)
  then obtain y m where "py_datetime y m 1 = Inr dt"
    by (auto simp: strptime_mY_def Let_def split: if_splits option.splits)
  then show ?thesis
    by (auto simp: py_datetime_def split: if_splits)
qed

lemma montar_url_consulta_valido:
  assumes "converter_periodo self = Inr dt"
  shows "\<exists>endpoint. montar_url_consulta self dt =
           Inr (endpoint, 1, dias_no_mes (fst dt) (fst (snd dt)))"
proof -
  obtain year month day where dt: "dt = (year, month, day)" by (cases dt)
  from converter_periodo_mes [OF assms] dt have "1 \<le> month" "month \<le> 12" by simp_all
  then have "monthrange year month = Inr (dias_no_mes year month)"
    by (rule monthrange_dias_no_mes)
  with dt show ?thesis by (simp add: montar_url_consulta_def Let_def)
qed

text \<open>
  Claim C7. For every period that \<^verbatim>\<open>_converter_periodo\<close> accepts,
  \<^verbatim>\<open>_montar_url_consulta\<close> returns the first day 1 and, as last day, the length of the
  month: 28 or 29 for February according to the leap-year rule, 30 for April, June,
  September and November, 31 otherwise.
\<close>

theorem montar_url_consulta_ultimo_dia:
  assumes "converter_periodo self = Inr dt"
  shows "\<exists>endpoint. montar_url_consulta self dt =
           Inr (endpoint, 1, dias_no_mes (fst dt) (fst (snd dt)))"
  using assms by (rule montar_url_consulta_valido)

lemma converter_periodo_fev_2019:
  "converter_periodo (novo_consultador ''022019'') = Inr (2019, 2, 1)"
  by (simp add: converter_periodo_def novo_consultador_def strptime_mY_def match_m2_def
      match_Y_def ascii_digit_def int_of_digits_def digit_val_def py_datetime_def mdays_def)

lemma converter_periodo_fev_2020:
  "converter_periodo (novo_consultador ''022020'') = Inr (2020, 2, 1)"
  by (simp add: converter_periodo_def novo_consultador_def strptime_mY_def match_m2_def
      match_Y_def ascii_digit_def int_of_digits_def digit_val_def py_datetime_def mdays_def)

text \<open>
  The periods 022019 and 022020 of the specification: last days 28 and 29.
\<close>

theorem montar_url_consulta_ultimo_dia_witness:
  "(\<exists>endpoint. montar_url_consulta (novo_consultador ''022019'' :: real consultador) (2019, 2, 1)
       = Inr (endpoint, 1, 28))
   \<and> (\<exists>endpoint. montar_url_consulta (novo_consultador ''022020'' :: real consultador) (2020, 2, 1)
       = Inr (endpoint, 1, 29))"
proof -
  have d: "dias_no_mes 2019 2 = 28" "dias_no_mes 2020 2 = 29"
    by (simp_all add: dias_no_mes_def bissexto_def)
  from montar_url_consulta_ultimo_dia [OF converter_periodo_fev_2019] d(1)
  have a: "\<exists>endpoint. montar_url_consulta (novo_consultador ''022019'' :: real consultador) (2019, 2, 1)
       = Inr (endpoint, 1, 28)" by simp
  from montar_url_consulta_ultimo_dia [OF converter_periodo_fev_2020] d(2)
  have b: "\<exists>endpoint. montar_url_consulta (novo_consultador ''022020'' :: real consultador) (2020, 2, 1)
       = Inr (endpoint, 1, 29)" by simp
  from a b show ?thesis by (rule conjI)
qed



section \<open>Validation of the period\<close>

lemma montar_url_fev_2019:
  "montar_url_consulta (novo_consultador ''022019'') (2019, 2, 1) =
     Inr (''https://olinda.bcb.gov.br/olinda/servico/PTAX/versao/v1/odata/CotacaoDolarPeriodo(dataInicial=@dataInicial,dataFinalCotacao=@dataFinalCotacao)?@dataInicial='02-01-2019'&@dataFinalCotacao='02-28-2019'&$format=json'', 1, 28)"
  by (simp add: montar_url_consulta_def novo_consultador_def monthrange_def mdays_def isleap_def
      fmt_02d_def Let_def)

lemma ascii_digit_cases:
  "ascii_digit c = (c = CHR ''0'' \<or> c = CHR ''1'' \<or> c = CHR ''2'' \<or> c = CHR ''3'' \<or> c = CHR ''4''
      \<or> c = CHR ''5'' \<or> c = CHR ''6'' \<or> c = CHR ''7'' \<or> c = CHR ''8'' \<or> c = CHR ''9'')"
  by (auto simp: ascii_digit_def)

lemma digit_val_le_9: "ascii_digit c \<Longrightarrow> digit_val c \<le> 9"
  by (auto simp: ascii_digit_cases digit_val_def)

lemma match_m2_iff:
  "match_m2 [a, b] =
     (ascii_digit a \<and> ascii_digit b \<and> 1 \<le> int_of_digits [a, b] \<and> int_of_digits [a, b] \<le> 12)"
proof (cases "ascii_digit a \<and> ascii_digit b")
  case True
  then have a: "ascii_digit a" and b: "ascii_digit b" by simp_all
  from a b show ?thesis
    unfolding ascii_digit_cases
    by (elim disjE) (simp_all add: match_m2_def int_of_digits_def digit_val_def)
next
  case False
  then show ?thesis by (auto simp: match_m2_def ascii_digit_cases)
qed

lemma int_of_digits_4:
  assumes "list_all ascii_digit [a, b, c, d]"
  shows "int_of_digits [a, b, c, d] \<le> 9999"
proof -
  from assms have "digit_val a \<le> 9" "digit_val b \<le> 9" "digit_val c \<le> 9" "digit_val d \<le> 9"
    by (simp_all add: digit_val_le_9)
  then show ?thesis by (simp add: int_of_digits_def)
qed

lemma py_datetime_dia_1:
  "py_datetime y m 1 = (if 1 \<le> y \<and> y \<le> 9999 \<and> 1 \<le> m \<and> m \<le> 12 then Inr (y, m, 1) else Inl ValueError)"
proof (cases "1 \<le> m \<and> m \<le> 12")
  case True
  then have "28 \<le> mdays ! m" by (simp add: mdays_ge_28)
  then have "1 \<le> mdays ! m + (if m = 2 \<and> isleap y then 1 else 0)" by simp
  then show ?thesis by (simp add: py_datetime_def)
next
  case False
  then show ?thesis by (auto simp: py_datetime_def)
qed

lemma strptime_mY_seis:
  assumes "length s = 6"
  shows "strptime_mY s =
           (if periodo_valido s then Inr (int_of_digits (drop 2 s), int_of_digits (take 2 s), 1)
            else Inl ValueError)"
proof -
  from assms obtain c1 c2 c3 c4 c5 c6 where s: "s = [c1, c2, c3, c4, c5, c6]"
    by (auto simp: length_Suc_conv numeral_eq_Suc)
  show ?thesis
  proof (cases "match_m2 [c1, c2] \<and> match_Y [c3, c4, c5, c6]")
    case True
    then have m: "ascii_digit c1" "ascii_digit c2" "1 \<le> int_of_digits [c1, c2]"
      "int_of_digits [c1, c2] \<le> 12" and y: "list_all ascii_digit [c3, c4, c5, c6]"
      by (simp_all add: match_m2_iff match_Y_def)
    from y have y9: "int_of_digits [c3, c4, c5, c6] \<le> 9999" by (rule int_of_digits_4)
    from True have "strptime_mY s = py_datetime (int_of_digits [c3, c4, c5, c6]) (int_of_digits [c1, c2]) 1"
      by (simp add: strptime_mY_def s)
    moreover from m y have "periodo_valido s = (int_of_digits [c3, c4, c5, c6] \<noteq> 0)"
      by (simp add: periodo_valido_def s)
    moreover have "py_datetime (int_of_digits [c3, c4, c5, c6]) (int_of_digits [c1, c2]) 1 =
        (if int_of_digits [c3, c4, c5, c6] \<noteq> 0
         then Inr (int_of_digits [c3, c4, c5, c6], int_of_digits [c1, c2], 1) else Inl ValueError)"
      unfolding py_datetime_dia_1 using m y9 by simp
    ultimately show ?thesis by (simp add: s)
  next
    case False
    then have "strptime_mY s = Inl ValueError"
      by (auto simp: strptime_mY_def s)
    moreover from False have "\<not> periodo_valido s"
      by (auto simp: periodo_valido_def s match_m2_iff match_Y_def)
    ultimately show ?thesis by simp
  qed
qed

lemma periodo_valido_isdigit: "periodo_valido s \<Longrightarrow> length s = 6 \<and> isdigit s"
  by (auto simp: periodo_valido_def isdigit_def isdigit_char_def list_all_iff)

lemma mundo_imprimir [simp]:
  "requisicoes (imprimir m w) = requisicoes w"
  "arquivos (imprimir m w) = arquivos w"
  "stdout (imprimir m w) = stdout w @ [m]"
  by (simp_all add: imprimir_def)

lemma converter_periodo_valido:
  "periodo_valido (periodo self) \<Longrightarrow>
   converter_periodo self =
     Inr (int_of_digits (drop 2 (periodo self)), int_of_digits (take 2 (periodo self)), 1)"
  by (simp add: converter_periodo_def strptime_mY_seis periodo_valido_def)



lemma buscar_cotacoes_valido:
  assumes "periodo_valido (periodo self)"
  shows "\<exists>url dt n. converter_periodo self = Inr dt
     \<and> montar_url_consulta self dt = Inr (url, 1, n)
     \<and> ((\<exists>m. buscar_cotacoes http self w =
             (Inr None, self,
              imprimir m (imprimir (Buscando (periodo self)) w\<lparr>requisicoes := requisicoes w @ [url]\<rparr>))
           \<and> (http url = Timeout \<and> m = TempoEsgotado
              \<or> http url = RequestException \<and> m = ErroRequisicao
              \<or> (http url = Resposta None \<or> http url = Resposta (Some []))
                  \<and> m = NenhumaCotacao (periodo self)))
       \<or> (\<exists>df w'. buscar_cotacoes http self w =
             (Inr (Some df), self\<lparr>dados_processados := Some df\<rparr>, w')
           \<and> requisicoes w' = requisicoes w @ [url] \<and> arquivos w' = arquivos w))"
proof -
  let ?y = "int_of_digits (drop 2 (periodo self))"
  let ?m = "int_of_digits (take 2 (periodo self))"
  have c: "converter_periodo self = Inr (?y, ?m, 1)"
    using assms by (rule converter_periodo_valido)
  from converter_periodo_mes [OF c] have v: "1 \<le> ?y" "?y \<le> 9999" "1 \<le> ?m" "?m \<le> 12"
    by simp_all
  from montar_url_consulta_valido [OF c]
  obtain url where u: "montar_url_consulta self (?y, ?m, 1) = Inr (url, 1, dias_no_mes ?y ?m)"
    by auto
  let ?n = "dias_no_mes ?y ?m"
  have mr: "monthrange ?y ?m = Inr ?n" using v(3,4) by (rule monthrange_dias_no_mes)
  from monthrange_ge_28 [OF mr] have n: "1 \<le> ?n" by simp
  have um: "(1::nat) \<le> 1" and nn: "?n \<le> ?n" by simp_all
  have p: "\<exists>msgs. preencher_dias_faltantes df (?y, ?m, 1) 1 ?n =
      Inr (ffill None (merge_left (map (\<lambda>d. (?y, ?m, d)) [1..<Suc ?n]) df), msgs)" for df :: "(date \<times> 'a) list"
    using preencher_dias_faltantes_eq [OF v(1,2) mr um n n nn] by blast
  show ?thesis
  proof (cases "http url")
    case Timeout
    with c u show ?thesis by (simp add: buscar_cotacoes_def Let_def)
  next
    case RequestException
    with c u show ?thesis by (simp add: buscar_cotacoes_def Let_def)
  next
    case (Resposta valor)
    show ?thesis
    proof (cases valor)
      case None
      with Resposta c u show ?thesis by (simp add: buscar_cotacoes_def Let_def)
    next
      case (Some rs)
      show ?thesis
      proof (cases rs)
        case Nil
        with Some Resposta c u show ?thesis by (simp add: buscar_cotacoes_def Let_def)
      next
        case (Cons r rs')
        from p [of "processar_dados_api (r # rs')"] obtain msgs where
          "preencher_dias_faltantes (processar_dados_api (r # rs')) (?y, ?m, 1) 1 ?n =
            Inr (ffill None (merge_left (map (\<lambda>d. (?y, ?m, d)) [1..<Suc ?n])
                   (processar_dados_api (r # rs'))), msgs)" ..
        with Cons Some Resposta c u show ?thesis
          by (simp add: buscar_cotacoes_def Let_def del: upt_Suc)
      qed
    qed
  qed
qed

lemma converter_periodo_dados [simp]:
  "converter_periodo (self\<lparr>dados_processados := d\<rparr>) = converter_periodo self"
  by (simp add: converter_periodo_def)

lemma executar_consulta_valido:
  assumes "periodo_valido s"
  shows "\<exists>url. requisicoes (executar_consulta http s w) = requisicoes w @ [url]
     \<and> last (stdout (executar_consulta http s w)) = Rodape
     \<and> (http url = Timeout \<or> http url = RequestException \<or> http url = Resposta None
          \<or> http url = Resposta (Some [])
        \<longrightarrow> arquivos (executar_consulta http s w) = arquivos w)"
proof -
  let ?c = "novo_consultador s :: 'a consultador"
  let ?w1 = "imprimir Cabecalho w"
  have ps: "periodo ?c = s" by (simp add: novo_consultador_def)
  from periodo_valido_isdigit [OF assms]
  have e: "executar_consulta http s w =
      (case buscar_cotacoes http ?c ?w1 of
         (Inl e, _, w2) \<Rightarrow> imprimir (ErroExecucao e) w2
       | (Inr None, _, w2) \<Rightarrow> imprimir Rodape w2
       | (Inr (Some dados), consultor', w2) \<Rightarrow>
           (case gerar_grafico consultor' w2 of
              (Inl e, _, w3) \<Rightarrow> imprimir (ErroExecucao e) w3
            | (Inr _, _, w3) \<Rightarrow> imprimir Rodape (imprimir Estatisticas w3)))"
    by (simp add: executar_consulta_def Let_def)
  from assms ps have "periodo_valido (periodo ?c)" by simp
  from buscar_cotacoes_valido [OF this, of http ?w1]
  obtain url dt n where c: "converter_periodo ?c = Inr dt"
    and u: "montar_url_consulta ?c dt = Inr (url, 1, n)"
    and b: "(\<exists>m. buscar_cotacoes http ?c ?w1 =
             (Inr None, ?c,
              imprimir m (imprimir (Buscando (periodo ?c)) ?w1\<lparr>requisicoes := requisicoes ?w1 @ [url]\<rparr>))
           \<and> (http url = Timeout \<and> m = TempoEsgotado
              \<or> http url = RequestException \<and> m = ErroRequisicao
              \<or> (http url = Resposta None \<or> http url = Resposta (Some []))
                  \<and> m = NenhumaCotacao (periodo ?c)))
       \<or> (\<exists>df w'. buscar_cotacoes http ?c ?w1 =
             (Inr (Some df), ?c\<lparr>dados_processados := Some df\<rparr>, w')
           \<and> requisicoes w' = requisicoes ?w1 @ [url] \<and> arquivos w' = arquivos ?w1)"
    by blast
  from b show ?thesis
  proof
    assume "\<exists>m. buscar_cotacoes http ?c ?w1 =
             (Inr None, ?c,
              imprimir m (imprimir (Buscando (periodo ?c)) ?w1\<lparr>requisicoes := requisicoes ?w1 @ [url]\<rparr>))
           \<and> (http url = Timeout \<and> m = TempoEsgotado
              \<or> http url = RequestException \<and> m = ErroRequisicao
              \<or> (http url = Resposta None \<or> http url = Resposta (Some []))
                  \<and> m = NenhumaCotacao (periodo ?c))"
    then obtain m where "buscar_cotacoes http ?c ?w1 =
             (Inr None, ?c,
              imprimir m (imprimir (Buscando (periodo ?c)) ?w1\<lparr>requisicoes := requisicoes ?w1 @ [url]\<rparr>))"
      by blast
    with e show ?thesis by (intro exI [of _ url]) simp
  next
    assume "\<exists>df w'. buscar_cotacoes http ?c ?w1 =
             (Inr (Some df), ?c\<lparr>dados_processados := Some df\<rparr>, w')
           \<and> requisicoes w' = requisicoes ?w1 @ [url] \<and> arquivos w' = arquivos ?w1"
    then obtain df w' where bb: "buscar_cotacoes http ?c ?w1 =
             (Inr (Some df), ?c\<lparr>dados_processados := Some df\<rparr>, w')"
      and r: "requisicoes w' = requisicoes ?w1 @ [url]" by blast
    have nv: "http url \<noteq> Timeout \<and> http url \<noteq> RequestException
        \<and> http url \<noteq> Resposta None \<and> http url \<noteq> Resposta (Some [])"
    proof (intro conjI notI)
      assume "http url = Timeout"
      with c u bb show False by (simp add: buscar_cotacoes_def Let_def)
    next
      assume "http url = RequestException"
      with c u bb show False by (simp add: buscar_cotacoes_def Let_def)
    next
      assume "http url = Resposta None"
      with c u bb show False by (simp add: buscar_cotacoes_def Let_def)
    next
      assume "http url = Resposta (Some [])"
      with c u bb show False by (simp add: buscar_cotacoes_def Let_def)
    qed
    from c have "gerar_grafico (?c\<lparr>dados_processados := Some df\<rparr>) w' =
        (Inr (Some (''grafico_dolar_ptax_'' @ s @ ''.html'')), ?c\<lparr>dados_processados := Some df\<rparr>,
         imprimir (GraficoSalvo (''grafico_dolar_ptax_'' @ s @ ''.html''))
           (w'\<lparr>arquivos := arquivos w' @ [''grafico_dolar_ptax_'' @ s @ ''.html'']\<rparr>))"
      by (simp add: gerar_grafico_def Let_def ps)
    with e bb r nv show ?thesis by (intro exI [of _ url]) simp
  qed
qed



lemma periodo_valido_exemplos:
  "periodo_valido ''022019''" "\<not> periodo_valido ''132019''" "\<not> periodo_valido ''12019''"
  "\<not> periodo_valido ''010000''" "\<not> periodo_valido ''0a2019''"
  by (simp_all add: periodo_valido_def ascii_digit_def int_of_digits_def digit_val_def)


lemma periodo_novo_consultador: "periodo (novo_consultador s) = s"
  by (simp add: novo_consultador_def)





section \<open>Empty answers and stages called out of order\<close>

lemma buscar_cotacoes_sem_frame:
  assumes "periodo_valido s"
      and "\<And>url. http url = r"
      and "r = Timeout \<and> m = TempoEsgotado \<or> r = RequestException \<and> m = ErroRequisicao
           \<or> r = Resposta (Some []) \<and> m = NenhumaCotacao s"
  shows "\<exists>url. buscar_cotacoes http (novo_consultador s) w =
           (Inr None, novo_consultador s,
            imprimir m (imprimir (Buscando s) w\<lparr>requisicoes := requisicoes w @ [url]\<rparr>))"
proof -
  let ?c = "novo_consultador s :: 'a consultador"
  from assms(1) have "periodo_valido (periodo ?c)" by (simp add: periodo_novo_consultador)
  from buscar_cotacoes_valido [OF this, of http w]
  obtain url dt n where c: "converter_periodo ?c = Inr dt"
    and u: "montar_url_consulta ?c dt = Inr (url, 1, n)" by blast
  from assms(2) have "http url = r" .
  with assms(3) c u show ?thesis
    by (intro exI [of _ url]) (auto simp: buscar_cotacoes_def Let_def periodo_novo_consultador)
qed

text \<open>
  Claim C8, amended. For an accepted period, when the service answers with an empty
  \<^verbatim>\<open>value\<close> array, \<^verbatim>\<open>buscar_cotacoes\<close> returns \<^verbatim>\<open>None\<close> without raising and leaves the object
  as it was; \<^verbatim>\<open>executar_consulta\<close> then writes no file and ends with the footer. A timeout
  and a failed request return the same \<^verbatim>\<open>None\<close>: the three outcomes differ in the message
  printed only.
\<close>

theorem buscar_cotacoes_sem_registros:
  assumes "periodo_valido s" and "\<And>url. http url = Resposta (Some [])"
  shows "(\<exists>url. buscar_cotacoes http (novo_consultador s) w =
            (Inr None, novo_consultador s,
             imprimir (NenhumaCotacao s)
               (imprimir (Buscando s) w\<lparr>requisicoes := requisicoes w @ [url]\<rparr>)))
       \<and> arquivos (executar_consulta http s w) = arquivos w
       \<and> last (stdout (executar_consulta http s w)) = Rodape
       \<and> (\<exists>url. buscar_cotacoes servico_timeout (novo_consultador s :: 'r consultador) w =
            (Inr None, novo_consultador s,
             imprimir TempoEsgotado
               (imprimir (Buscando s) w\<lparr>requisicoes := requisicoes w @ [url]\<rparr>)))
       \<and> (\<exists>url. buscar_cotacoes servico_falha (novo_consultador s :: 'r consultador) w =
            (Inr None, novo_consultador s,
             imprimir ErroRequisicao
               (imprimir (Buscando s) w\<lparr>requisicoes := requisicoes w @ [url]\<rparr>)))"
proof (intro conjI)
  show "\<exists>url. buscar_cotacoes http (novo_consultador s) w =
            (Inr None, novo_consultador s,
             imprimir (NenhumaCotacao s)
               (imprimir (Buscando s) w\<lparr>requisicoes := requisicoes w @ [url]\<rparr>))"
    using assms by (intro buscar_cotacoes_sem_frame [where r = "Resposta (Some [])"]) simp_all
  from executar_consulta_valido [OF assms(1), of http w] assms(2)
  show "arquivos (executar_consulta http s w) = arquivos w" by auto
  from executar_consulta_valido [OF assms(1), of http w]
  show "last (stdout (executar_consulta http s w)) = Rodape" by blast
  show "\<exists>url. buscar_cotacoes servico_timeout (novo_consultador s :: 'r consultador) w =
            (Inr None, novo_consultador s,
             imprimir TempoEsgotado
               (imprimir (Buscando s) w\<lparr>requisicoes := requisicoes w @ [url]\<rparr>))"
    using assms(1) by (intro buscar_cotacoes_sem_frame [where r = Timeout]) (simp_all add: servico_timeout_def)
  show "\<exists>url. buscar_cotacoes servico_falha (novo_consultador s :: 'r consultador) w =
            (Inr None, novo_consultador s,
             imprimir ErroRequisicao
               (imprimir (Buscando s) w\<lparr>requisicoes := requisicoes w @ [url]\<rparr>))"
    using assms(1) by (intro buscar_cotacoes_sem_frame [where r = RequestException]) (simp_all add: servico_falha_def)
qed

text \<open>
  The theorem for the period 022019 and a service without records.
\<close>

theorem buscar_cotacoes_sem_registros_witness:
  "fst (buscar_cotacoes (servico_vazio :: string \<Rightarrow> real resposta) (novo_consultador ''022019'') mundo_inicial)
     = Inr None
   \<and> arquivos (executar_consulta (servico_vazio :: string \<Rightarrow> real resposta) ''022019'' mundo_inicial) = []
   \<and> last (stdout (executar_consulta (servico_vazio :: string \<Rightarrow> real resposta) ''022019'' mundo_inicial))
       = Rodape"
proof -
  let ?h = "servico_vazio :: string \<Rightarrow> real resposta"
  have h: "\<And>url. ?h url = Resposta (Some [])" by (simp add: servico_vazio_def)
  from buscar_cotacoes_sem_registros [where http = ?h and w = mundo_inicial and s = "''022019''",
      OF periodo_valido_exemplos(1) h]
  have "(\<exists>url. buscar_cotacoes ?h (novo_consultador ''022019'') mundo_inicial =
            (Inr None, novo_consultador ''022019'',
             imprimir (NenhumaCotacao ''022019'')
               (imprimir (Buscando ''022019'') mundo_inicial
                  \<lparr>requisicoes := requisicoes mundo_inicial @ [url]\<rparr>)))"
    and "arquivos (executar_consulta ?h ''022019'' mundo_inicial) = arquivos mundo_inicial"
    and "last (stdout (executar_consulta ?h ''022019'' mundo_inicial)) = Rodape"
    by blast+
  then show ?thesis by (auto simp: mundo_inicial_def)
qed

text \<open>
  Claim C8 as stated fails: for the period 022019 the value returned on an empty answer
  is the value returned on a timeout and on a failed request.
\<close>

theorem buscar_cotacoes_vazio_igual_timeout_counterexample:
  "fst (buscar_cotacoes (servico_vazio :: string \<Rightarrow> real resposta) (novo_consultador ''022019'') mundo_inicial)
     = fst (buscar_cotacoes (servico_timeout :: string \<Rightarrow> real resposta) (novo_consultador ''022019'')
              mundo_inicial)
   \<and> fst (buscar_cotacoes (servico_vazio :: string \<Rightarrow> real resposta) (novo_consultador ''022019'') mundo_inicial)
     = fst (buscar_cotacoes (servico_falha :: string \<Rightarrow> real resposta) (novo_consultador ''022019'')
              mundo_inicial)"
proof -
  let ?c = "novo_consultador ''022019'' :: real consultador"
  have "\<exists>url. buscar_cotacoes servico_vazio ?c mundo_inicial =
           (Inr None, ?c,
            imprimir (NenhumaCotacao ''022019'')
              (imprimir (Buscando ''022019'') mundo_inicial
                 \<lparr>requisicoes := requisicoes mundo_inicial @ [url]\<rparr>))"
    using periodo_valido_exemplos(1)
    by (intro buscar_cotacoes_sem_frame [where r = "Resposta (Some [])"])
      (simp_all add: servico_vazio_def)
  then have a: "fst (buscar_cotacoes servico_vazio ?c mundo_inicial) = Inr None" by auto
  have "\<exists>url. buscar_cotacoes servico_timeout ?c mundo_inicial =
           (Inr None, ?c,
            imprimir TempoEsgotado
              (imprimir (Buscando ''022019'') mundo_inicial
                 \<lparr>requisicoes := requisicoes mundo_inicial @ [url]\<rparr>))"
    using periodo_valido_exemplos(1)
    by (intro buscar_cotacoes_sem_frame [where r = Timeout]) (simp_all add: servico_timeout_def)
  then have b: "fst (buscar_cotacoes servico_timeout ?c mundo_inicial) = Inr None" by auto
  have "\<exists>url. buscar_cotacoes servico_falha ?c mundo_inicial =
           (Inr None, ?c,
            imprimir ErroRequisicao
              (imprimir (Buscando ''022019'') mundo_inicial
                 \<lparr>requisicoes := requisicoes mundo_inicial @ [url]\<rparr>))"
    using periodo_valido_exemplos(1)
    by (intro buscar_cotacoes_sem_frame [where r = RequestException])
      (simp_all add: servico_falha_def)
  then have c: "fst (buscar_cotacoes servico_falha ?c mundo_inicial) = Inr None" by auto
  from a b c show ?thesis by simp
qed



text \<open>
  A stage that did not succeed leaves the field its successor tests as it was: loading
  never sets the predictions, a fit that does not return \<^verbatim>\<open>True\<close> and a lookup that
  returns no frame leave the object unchanged.
\<close>

lemma treinar_modelo_sem_sucesso:
  "treinar_modelo m w = (r, m', w') \<Longrightarrow> r \<noteq> Inr True \<Longrightarrow> m' = m"
  by (auto simp: treinar_modelo_def Let_def split: option.splits sum.splits)

lemma carregar_dados_predicoes:
  "carregar_dados loadtxt px py m w = (r, m', w') \<Longrightarrow> predicoes m' = predicoes m"
  by (auto simp: carregar_dados_def Let_def split: sum.splits if_splits)

lemma buscar_cotacoes_sem_sucesso:
  "buscar_cotacoes http c w = (r, c', w') \<Longrightarrow> \<forall>df. r \<noteq> Inr (Some df) \<Longrightarrow> c' = c"
  by (auto simp: buscar_cotacoes_def Let_def
      split: sum.splits prod.splits resposta.splits option.splits list.splits)

end
